theory Spec2Isabelle
  imports Main
begin

section \<open>Values, exceptions and the shared state\<close>

text \<open>
  The module \<^verbatim>\<open>sos_notebook/workflow_executor.py\<close> dispatches a notebook cell to the
  SoS engine. Everything it does is an effect on process-wide objects (\<^verbatim>\<open>env\<close>,
  \<^verbatim>\<open>sys.argv\<close>, \<^verbatim>\<open>os.environ\<close>, the logger) or a call into the engine. The model is a
  state-and-exception monad over a record of that shared state. Strings are lists of
  code points below 256.
\<close>

datatype pyval =
    PNone
  | PBool bool
  | PInt int
  | PStr string
  | PList "pyval list"
  | PDict "(string \<times> pyval) list"
  | PTargets "string list"

text \<open>
  Python exceptions. \<open>msg\<close> is what \<^verbatim>\<open>str(e)\<close> gives; \<open>target\<close> is the
  \<^verbatim>\<open>e.target\<close> attribute of the two target-resolution failures, already rendered as
  text. \<open>SystemExit\<close> and \<open>KeyboardInterrupt\<close> derive from \<^verbatim>\<open>BaseException\<close> only; all
  the others derive from \<^verbatim>\<open>Exception\<close>.
\<close>

datatype exn =
    UnknownTarget (target: string) (msg: string)
  | RemovedTarget (target: string) (msg: string)
  | PendingTasks (msg: string)
  | TypeError (msg: string)
  | SystemExit (msg: string)
  | KeyboardInterrupt (msg: string)
  | RuntimeError (msg: string)
  | AttributeError (msg: string)
  | IndexError (msg: string)
  | KeyError (msg: string)
  | ValueError (msg: string)
  | ArgumentError (msg: string)
  | OtherException (msg: string)

fun is_Exception :: "exn \<Rightarrow> bool" where
  "is_Exception (SystemExit _) = False"
| "is_Exception (KeyboardInterrupt _) = False"
| "is_Exception _ = True"

datatype kernel = Kernel nat

datatype loglevel = ERROR | WARNING | INFO | DEBUG | TRACE

text \<open>
  \<^verbatim>\<open>class NotebookLoggingHandler(logging.Handler)\<close> with its three attributes; any other
  handler installed on the logger is \<open>OtherHandler\<close>.
\<close>

datatype handler =
    NotebookLoggingHandler loglevel "kernel option" string
  | OtherHandler

fun setTitle :: "handler \<Rightarrow> string \<Rightarrow> handler" where
  "setTitle (NotebookLoggingHandler l k _) title = NotebookLoggingHandler l k title"
| "setTitle OtherHandler title = OtherHandler"

fun isinstance_NotebookLoggingHandler :: "handler \<Rightarrow> bool" where
  "isinstance_NotebookLoggingHandler (NotebookLoggingHandler _ _ _) = True"
| "isinstance_NotebookLoggingHandler OtherHandler = False"

datatype channel = Channel nat

text \<open>
  A workflow object as far as this module looks into it: \<^verbatim>\<open>workflow.sections\<close>. A section is
  named by a string.
\<close>

record sos_workflow =
  wf_name :: string
  sections :: "string list"

text \<open>The attributes \<^verbatim>\<open>Tapped_Executor.__init__\<close> stores on the worker process object.\<close>

record worker =
  self_workflow :: sos_workflow
  self_args :: "string list"
  self_config :: "(string \<times> pyval) list"
  self_targets :: "string list option"

text \<open>
  What the outside of the process can observe, in the order it happens: output, messages
  on channels, and every call into the engine, the host layer and the operating system.
\<close>

datatype event =
    PrintHelp
  | Print string
  | StderrWrite string
  | LogToFile string
  | SendPyobj channel pyval
  | SendMultipart channel "string list"
  | Recv channel
  | DisconnectControllers
  | Join
  | LoadConfigFiles "string option"
  | HostInit string
  | WriteFile string string
  | SendToHost string
  | RedirectEnter kernel
  | RedirectExit kernel
  | RunCommand "string list"
  | SendResponse kernel string string string
  | Makedirs string
  | SoSScript string
  | ScriptWorkflow "string option" "bool option"
  | ProcessStart worker
  | ParseKnownArgs bool "string list"
  | PrepareEnv string
  | AnalyzeSection string
  | StepExecutorInit string
  | StepExecutorRun string
  | BaseExecutorInit sos_workflow "string list" "(string \<times> pyval) list"
  | BaseExecutorRun "string list option"

record world =
  sys_argv :: "string list"
  env_verbosity :: "int option"
  logger_handlers :: "handler list"
  env_config :: "(string \<times> pyval) list"
  sos_dict :: "(string \<times> pyval) list"
  env_sockets :: "(string \<times> channel) list"
  environ_PATH :: string
  directories :: "string list"
  cwd :: string
  events :: "event list"

type_synonym 'a M = "world \<Rightarrow> (exn + 'a) \<times> world"

definition returnM :: "'a \<Rightarrow> 'a M" where
  "returnM x = (\<lambda>w. (Inr x, w))"

definition raiseM :: "exn \<Rightarrow> 'a M" where
  "raiseM e = (\<lambda>w. (Inl e, w))"

definition bindM :: "'a M \<Rightarrow> ('a \<Rightarrow> 'b M) \<Rightarrow> 'b M" where
  "bindM m f = (\<lambda>w. case m w of (Inl e, w') \<Rightarrow> (Inl e, w') | (Inr x, w') \<Rightarrow> f x w')"

definition thenM :: "'a M \<Rightarrow> 'b M \<Rightarrow> 'b M" where
  "thenM m k = bindM m (\<lambda>_. k)"

definition emit :: "event \<Rightarrow> unit M" where
  "emit ev = (\<lambda>w. (Inr (), w\<lparr>events := events w @ [ev]\<rparr>))"

definition modify :: "(world \<Rightarrow> world) \<Rightarrow> unit M" where
  "modify f = (\<lambda>w. (Inr (), f w))"

text \<open>
  A call into code outside this module: the call is recorded, then it returns a value or
  raises, as the environment says.
\<close>

definition call :: "event \<Rightarrow> exn + 'a \<Rightarrow> 'a M" where
  "call ev r = (\<lambda>w. (r, w\<lparr>events := events w @ [ev]\<rparr>))"

text \<open>
  \<^verbatim>\<open>try: m except ...\<close>: the handler maps an exception to the clause that catches it, or to
  \<open>None\<close> when no clause matches. \<^verbatim>\<open>finally\<close> runs its block whatever happened.
\<close>

definition try_except :: "'a M \<Rightarrow> (exn \<Rightarrow> 'a M option) \<Rightarrow> 'a M" where
  "try_except m h = (\<lambda>w. case m w of
       (Inl e, w') \<Rightarrow> (case h e of None \<Rightarrow> (Inl e, w') | Some k \<Rightarrow> k w')
     | (Inr x, w') \<Rightarrow> (Inr x, w'))"

definition try_finally :: "'a M \<Rightarrow> unit M \<Rightarrow> 'a M" where
  "try_finally m f = (\<lambda>w. case m w of (r, w') \<Rightarrow>
       (case f w' of (Inl e, w'') \<Rightarrow> (Inl e, w'') | (Inr _, w'') \<Rightarrow> (r, w'')))"

section \<open>Dictionaries and strings\<close>

fun dict_set :: "(string \<times> 'v) list \<Rightarrow> string \<Rightarrow> 'v \<Rightarrow> (string \<times> 'v) list" where
  "dict_set [] k v = [(k, v)]"
| "dict_set ((k', v') # d) k v = (if k' = k then (k, v) # d else (k', v') # dict_set d k v)"

fun dict_pop :: "(string \<times> 'v) list \<Rightarrow> string \<Rightarrow> (string \<times> 'v) list" where
  "dict_pop [] k = []"
| "dict_pop ((k', v') # d) k = (if k' = k then dict_pop d k else (k', v') # dict_pop d k)"

fun dict_update :: "(string \<times> 'v) list \<Rightarrow> (string \<times> 'v) list \<Rightarrow> (string \<times> 'v) list" where
  "dict_update d [] = d"
| "dict_update d ((k, v) # kvs) = dict_update (dict_set d k v) kvs"

definition dict_get :: "(string \<times> 'v) list \<Rightarrow> string \<Rightarrow> exn + 'v" where
  "dict_get d k = (case map_of d k of None \<Rightarrow> Inl (KeyError k) | Some v \<Rightarrow> Inr v)"

text \<open>\<^verbatim>\<open>str.isspace\<close> on the code points below 256.\<close>

definition isspace :: "char \<Rightarrow> bool" where
  "isspace c = (of_char c \<in> {9::nat, 10, 11, 12, 13, 28, 29, 30, 31, 32, 133, 160})"

definition lstrip :: "string \<Rightarrow> string" where
  "lstrip s = dropWhile isspace s"

definition strip :: "string \<Rightarrow> string" where
  "strip s = rev (dropWhile isspace (rev (dropWhile isspace s)))"

definition startswith :: "string \<Rightarrow> string \<Rightarrow> bool" where
  "startswith s p = (take (length p) s = p)"

text \<open>The line boundaries of \<^verbatim>\<open>str.splitlines\<close> below 256; \<^verbatim>\<open>\r\n\<close> is one boundary.\<close>

definition is_linebreak :: "char \<Rightarrow> bool" where
  "is_linebreak c = (of_char c \<in> {10::nat, 11, 12, 13, 28, 29, 30, 133})"

fun splitlines_aux :: "string \<Rightarrow> string \<Rightarrow> string list" where
  "splitlines_aux cur [] = (if cur = [] then [] else [rev cur])"
| "splitlines_aux cur (c # cs) =
     (if is_linebreak c then
        (case cs of
           d # ds \<Rightarrow> if of_char c = (13::nat) \<and> of_char d = (10::nat)
                     then rev cur # splitlines_aux [] ds
                     else rev cur # splitlines_aux [] cs
         | [] \<Rightarrow> rev cur # splitlines_aux [] cs)
      else splitlines_aux (c # cur) cs)"

definition splitlines :: "string \<Rightarrow> string list" where
  "splitlines s = splitlines_aux [] s"

fun join :: "string \<Rightarrow> string list \<Rightarrow> string" where
  "join sep [] = []"
| "join sep [x] = x"
| "join sep (x # y # ys) = x @ sep @ join sep (y # ys)"

definition digit_char :: "nat \<Rightarrow> char" where
  "digit_char d = ''0123456789'' ! d"

fun str_nat :: "nat \<Rightarrow> string" where
  "str_nat n = (if n < 10 then [digit_char n] else str_nat (n div 10) @ [digit_char (n mod 10)])"

definition str_int :: "int \<Rightarrow> string" where
  "str_int i = (if i < 0 then CHR ''-'' # str_nat (nat (- i)) else str_nat (nat i))"

section \<open>Controller shutdown\<close>

text \<open>
  \<^verbatim>\<open>env.<name>\<close> for a channel attribute bound by \<^verbatim>\<open>connect_controllers\<close> (not part of
  this module). A name that is not bound raises \<^verbatim>\<open>AttributeError\<close>.
\<close>

definition env_socket :: "string \<Rightarrow> channel M" where
  "env_socket name = (\<lambda>w. case map_of (env_sockets w) name of
       None \<Rightarrow> (Inl (AttributeError name), w)
     | Some c \<Rightarrow> (Inr c, w))"

text \<open>
  \<^verbatim>\<open>
  def stop_controller(controller):
      if not controller:
          return
      env.controller_req_socket.send_pyobj(['done'])
      env.controller_req_socket.recv()
      disconnect_controllers()
      controller.join()
  \<close>
\<close>

definition stop_controller :: "unit option \<Rightarrow> unit M" where
  "stop_controller controller =
     (case controller of
        None \<Rightarrow> returnM ()
      | Some _ \<Rightarrow>
          bindM (env_socket ''controller_req_socket'') (\<lambda>s.
          thenM (emit (SendPyobj s (PList [PStr ''done'']))) (
          bindM (env_socket ''controller_req_socket'') (\<lambda>s'.
          thenM (emit (Recv s')) (
          thenM (emit DisconnectControllers) (
          emit Join))))))"


section \<open>The engine and the operating system, as parameters\<close>

text \<open>
  The namespace returned by the run parser (\<^verbatim>\<open>sos.__main__.get_run_parser\<close>), with the
  attributes this module reads. \<open>arg_dag\<close> is \<^verbatim>\<open>args.__dag__\<close>, and so on.
\<close>

record parsed_args =
  arg_verbosity :: "int option"
  arg_dag :: "string option"
  arg_report :: "string option"
  arg_remote :: "string option"
  arg_config :: "string option"
  arg_bin_dirs :: "string list option"
  arg_dryrun :: bool
  arg_sig_mode :: "string option"
  arg_queue :: "string option"
  arg_wait :: bool
  arg_no_wait :: bool
  arg_max_procs :: "int option"
  arg_max_running_jobs :: "int option"
  arg_workflow :: "string option"
  arg_targets :: "string list option"

record datetime =
  dt_year :: nat
  dt_month :: nat
  dt_day :: nat
  dt_hour :: nat
  dt_minute :: nat

record analysis =
  signature_vars :: pyval
  environ_vars :: pyval
  changed_vars :: pyval

text \<open>
  Everything this module imports from \<^verbatim>\<open>sos\<close>, \<^verbatim>\<open>shlex\<close>, \<^verbatim>\<open>os\<close> and \<^verbatim>\<open>datetime\<close> and that
  returns a value. Each function returns its result or the exception it raises. The
  first argument of \<open>parse_known_args\<close> is the \<^verbatim>\<open>with_workflow\<close> flag the parser was built
  with (\<^verbatim>\<open>interactive\<close> is always true); the last of \<open>script_workflow\<close> is \<^verbatim>\<open>use_default\<close>,
  \<open>None\<close> when the call does not pass it. \<open>SOS_SECTION_HEADER_match\<close> is
  \<^verbatim>\<open>sos.syntax.SOS_SECTION_HEADER.match\<close> read as a truth value.
\<close>

record ext =
  shlex_split :: "string \<Rightarrow> exn + string list"
  parse_known_args :: "bool \<Rightarrow> string list \<Rightarrow> exn + (parsed_args \<times> string list)"
  now :: datetime
  load_config_files :: "string option \<Rightarrow> exn + pyval"
  Host :: "string \<Rightarrow> exn + nat"
  send_to_host :: "nat \<Rightarrow> string \<Rightarrow> exn + unit"
  remove_arg :: "string list \<Rightarrow> string \<Rightarrow> string list"
  run_command :: "nat \<Rightarrow> string list \<Rightarrow> exn + int"
  expanduser :: "string \<Rightarrow> string"
  pathsep :: string
  SoS_Script :: "string \<Rightarrow> exn + nat"
  script_workflow :: "nat \<Rightarrow> string option \<Rightarrow> bool option \<Rightarrow> exn + sos_workflow"
  SOS_SECTION_HEADER_match :: "string \<Rightarrow> bool"
  prepare_env :: "string \<Rightarrow> exn + unit"
  analyze_section :: "string \<Rightarrow> exn + analysis"
  Interactive_Step_Executor :: "string \<Rightarrow> exn + nat"
  step_executor_run :: "nat \<Rightarrow> exn + (string \<times> pyval) list"
  Base_Executor :: "sos_workflow \<Rightarrow> string list \<Rightarrow> (string \<times> pyval) list \<Rightarrow> exn + nat"
  Base_Executor_run :: "nat \<Rightarrow> string list option \<Rightarrow> exn + pyval"
  get_traceback :: string

section \<open>The scratch executor\<close>

text \<open>
  \<^verbatim>\<open>
  def execute_scratch_cell(section, config):
      env.config['workflow_id'] = '0'
      env.sos_dict.set('workflow_id', '0')
      env.config.update(config)
      prepare_env('')
      for k in ['__step_input__', '__default_output__', '__step_output__']:
          env.sos_dict.pop(k, None)
      try:
          res = analyze_section(section)
          env.sos_dict.quick_update({
              '__signature_vars__': res['signature_vars'],
              '__environ_vars__': res['environ_vars'],
              '__changed_vars__': res['changed_vars']
          })
          executor = Interactive_Step_Executor(section, mode='interactive')
          return executor.run()
      except (UnknownTarget, RemovedTarget) as e:
          raise RuntimeError(f'Unavailable target {e.target}')
  \<close>
\<close>

definition scratch_try_body :: "ext \<Rightarrow> string \<Rightarrow> (string \<times> pyval) list M" where
  "scratch_try_body x section =
     bindM (call (AnalyzeSection section) (analyze_section x section)) (\<lambda>res.
     thenM (modify (\<lambda>w. w\<lparr>sos_dict := dict_update (sos_dict w)
              [(''__signature_vars__'', signature_vars res),
               (''__environ_vars__'', environ_vars res),
               (''__changed_vars__'', changed_vars res)]\<rparr>)) (
     bindM (call (StepExecutorInit section) (Interactive_Step_Executor x section)) (\<lambda>executor.
     call (StepExecutorRun section) (step_executor_run x executor))))"

fun scratch_handler :: "exn \<Rightarrow> (string \<times> pyval) list M option" where
  "scratch_handler (UnknownTarget t m) = Some (raiseM (RuntimeError (''Unavailable target '' @ t)))"
| "scratch_handler (RemovedTarget t m) = Some (raiseM (RuntimeError (''Unavailable target '' @ t)))"
| "scratch_handler _ = None"

definition execute_scratch_cell ::
    "ext \<Rightarrow> string \<Rightarrow> (string \<times> pyval) list \<Rightarrow> (string \<times> pyval) list M" where
  "execute_scratch_cell x section cfg =
     thenM (modify (\<lambda>w. w\<lparr>env_config := dict_set (env_config w) ''workflow_id'' (PStr ''0'')\<rparr>)) (
     thenM (modify (\<lambda>w. w\<lparr>sos_dict := dict_set (sos_dict w) ''workflow_id'' (PStr ''0'')\<rparr>)) (
     thenM (modify (\<lambda>w. w\<lparr>env_config := dict_update (env_config w) cfg\<rparr>)) (
     thenM (call (PrepareEnv '''') (prepare_env x '''')) (
     thenM (modify (\<lambda>w. w\<lparr>sos_dict := foldl dict_pop (sos_dict w)
              [''__step_input__'', ''__default_output__'', ''__step_output__'']\<rparr>)) (
     try_except (scratch_try_body x section) scratch_handler)))))"

text \<open>
  What the three engine calls of the scratch executor's \<^verbatim>\<open>try\<close> block give, taken
  together: the first exception raised, or the result of \<^verbatim>\<open>executor.run()\<close>.
\<close>

definition scratch_engine_outcome :: "ext \<Rightarrow> string \<Rightarrow> exn + (string \<times> pyval) list" where
  "scratch_engine_outcome x section =
     (case analyze_section x section of
        Inl e \<Rightarrow> Inl e
      | Inr res \<Rightarrow>
          (case Interactive_Step_Executor x section of
             Inl e \<Rightarrow> Inl e
           | Inr executor \<Rightarrow> step_executor_run x executor))"

section \<open>The worker process\<close>




section \<open>The dispatcher\<close>

datatype raw_args = RawStr string | RawList "string list"

text \<open>
  \<^verbatim>\<open>raw_args = shlex.split(raw_args) if isinstance(raw_args, str) else raw_args\<close>
\<close>

definition split_raw_args :: "ext \<Rightarrow> raw_args \<Rightarrow> string list M" where
  "split_raw_args x raw =
     (case raw of
        RawStr s \<Rightarrow> (\<lambda>w. (shlex_split x s, w))
      | RawList l \<Rightarrow> returnM l)"

text \<open>
  \<^verbatim>\<open>
  parser = get_run_parser(interactive=True, with_workflow=True)
  parser.print_help()
  return
  \<close>
\<close>

definition print_help :: "pyval M" where
  "print_help = thenM (emit PrintHelp) (returnM PNone)"

text \<open>
  \<^verbatim>\<open>
  if raw_args and raw_args[0].lstrip().startswith('-'):
      parser = get_run_parser(interactive=True, with_workflow=False)
      parser.error = _parse_error
      args, workflow_args = parser.parse_known_args(raw_args)
      args.workflow = None
  else:
      parser = get_run_parser(interactive=True, with_workflow=True)
      parser.error = _parse_error
      args, workflow_args = parser.parse_known_args(raw_args)
  \<close>
\<close>

definition parse_raw_args :: "ext \<Rightarrow> string list \<Rightarrow> (parsed_args \<times> string list) M" where
  "parse_raw_args x raw_args =
     (if raw_args \<noteq> [] \<and> startswith (lstrip (hd raw_args)) ''-'' then
        bindM (call (ParseKnownArgs False raw_args) (parse_known_args x False raw_args))
          (\<lambda>(a, workflow_args). returnM (a\<lparr>arg_workflow := None\<rparr>, workflow_args))
      else
        call (ParseKnownArgs True raw_args) (parse_known_args x True raw_args))"

text \<open>
  The logger is a \<^verbatim>\<open>logging.Logger\<close>: the attribute holding its handlers is \<^verbatim>\<open>handlers\<close>;
  the other name this module asks it for is not an attribute of a logger.
\<close>

definition logger_getattr :: "string \<Rightarrow> handler list M" where
  "logger_getattr name =
     (if name = ''handlers'' then (\<lambda>w. (Inr (logger_handlers w), w))
      else raiseM (AttributeError name))"

definition subscript0 :: "'a list \<Rightarrow> 'a M" where
  "subscript0 xs = (case xs of [] \<Rightarrow> raiseM (IndexError ''list index out of range'')
                    | y # _ \<Rightarrow> returnM y)"

text \<open>
  \<^verbatim>\<open>
  levels = {0: logging.ERROR, 1: logging.WARNING, 2: logging.INFO,
            3: logging.DEBUG, 4: logging.TRACE, None: logging.INFO}
  \<close>
\<close>

definition levels :: "int option \<Rightarrow> exn + loglevel" where
  "levels v =
     (case v of
        None \<Rightarrow> Inr INFO
      | Some n \<Rightarrow>
          if n = 0 then Inr ERROR
          else if n = 1 then Inr WARNING
          else if n = 2 then Inr INFO
          else if n = 3 then Inr DEBUG
          else if n = 4 then Inr TRACE
          else Inl (KeyError (str_int n)))"

text \<open>
  \<^verbatim>\<open>
  if kernel and not isinstance(env.logger.handlers[0], NotebookLoggingHandler):
      env.logger.handlers = []
      levels = {...}
      env.logger.addHandler(NotebookLoggingHandler(
          levels[env.verbosity], kernel, title=' '.join(sys.argv)))
  else:
      env.logger.handers[0].setTitle(' '.join(sys.argv))
  \<close>
\<close>

definition logger_condition :: "kernel option \<Rightarrow> bool M" where
  "logger_condition kern =
     (case kern of
        None \<Rightarrow> returnM False
      | Some k \<Rightarrow>
          bindM (logger_getattr ''handlers'') (\<lambda>hs.
          bindM (subscript0 hs) (\<lambda>h.
          returnM (\<not> isinstance_NotebookLoggingHandler h))))"

definition setup_logger :: "kernel option \<Rightarrow> unit M" where
  "setup_logger kern =
     bindM (logger_condition kern) (\<lambda>c.
       if c then
         thenM (modify (\<lambda>w. w\<lparr>logger_handlers := []\<rparr>)) (
         bindM (\<lambda>w. (levels (env_verbosity w), w)) (\<lambda>level.
         modify (\<lambda>w. w\<lparr>logger_handlers := logger_handlers w @
                    [NotebookLoggingHandler level kern (join '' '' (sys_argv w))]\<rparr>)))
       else
         bindM (logger_getattr ''handers'') (\<lambda>hs.
         bindM (subscript0 hs) (\<lambda>h.
         modify (\<lambda>w. w\<lparr>logger_handlers :=
                    (setTitle h (join '' '' (sys_argv w))) # tl (logger_handlers w)\<rparr>))))"

text \<open>
  \<^verbatim>\<open>dt = datetime.datetime.now().strftime('%m%d%y_%H%M')\<close>: two digits each for month, day,
  year without century, hour and minute.
\<close>

definition pad2 :: "nat \<Rightarrow> string" where
  "pad2 n = (if n < 10 then CHR ''0'' # str_nat n else str_nat n)"

definition strftime_mdy_HM :: "datetime \<Rightarrow> string" where
  "strftime_mdy_HM d =
     pad2 (dt_month d) @ pad2 (dt_day d) @ pad2 (dt_year d mod 100) @ ''_'' @
     pad2 (dt_hour d) @ pad2 (dt_minute d)"

text \<open>
  \<^verbatim>\<open>
  if args.__dag__ is None:
      args.__dag__ = f'workflow_{dt}.dot'
  elif args.__dag__ == '':
      args.__dag__ = None

  if args.__report__ is None:
      args.__report__ = f'workflow_{dt}.html'
  elif args.__report__ == '':
      args.__report__ = None
  \<close>
\<close>

definition resolve_dag :: "string \<Rightarrow> parsed_args \<Rightarrow> parsed_args" where
  "resolve_dag dt a =
     (case arg_dag a of
        None \<Rightarrow> a\<lparr>arg_dag := Some (''workflow_'' @ dt @ ''.dot'')\<rparr>
      | Some d \<Rightarrow> if d = '''' then a\<lparr>arg_dag := None\<rparr> else a)"

definition resolve_report :: "string \<Rightarrow> parsed_args \<Rightarrow> parsed_args" where
  "resolve_report dt a =
     (case arg_report a of
        None \<Rightarrow> a\<lparr>arg_report := Some (''workflow_'' @ dt @ ''.html'')\<rparr>
      | Some r \<Rightarrow> if r = '''' then a\<lparr>arg_report := None\<rparr> else a)"

definition resolve_artifacts :: "string \<Rightarrow> parsed_args \<Rightarrow> parsed_args" where
  "resolve_artifacts dt a = resolve_report dt (resolve_dag dt a)"

text \<open>
  The remote command and the report of its outcome:
  \<^verbatim>\<open>
  try:
      with kernel.redirect_sos_io():
          ret = host._host_agent.run_command(['sos', 'run', script] + argv,
                                             wait_for_task=True, realtime=True)
      if ret:
          kernel.send_response(kernel.iopub_socket, 'stream',
              dict(name='stderr',
                   text=f'remote execution of workflow exited with code {ret}'))
  except Exception as e:
      if kernel:
          kernel.send_response(kernel.iopub_socket, 'stream',
                               {'name': 'stdout', 'text': str(e)})
  \<close>
  With no kernel, \<^verbatim>\<open>kernel.redirect_sos_io\<close> is an attribute of \<^verbatim>\<open>None\<close> and raises.
\<close>

definition kernel_attr :: "kernel option \<Rightarrow> string \<Rightarrow> kernel M" where
  "kernel_attr kern name =
     (case kern of None \<Rightarrow> raiseM (AttributeError name) | Some k \<Rightarrow> returnM k)"

definition remote_try_body :: "ext \<Rightarrow> kernel option \<Rightarrow> nat \<Rightarrow> string \<Rightarrow> string list \<Rightarrow> unit M" where
  "remote_try_body x kern host script argv =
     bindM (kernel_attr kern ''redirect_sos_io'') (\<lambda>k.
     thenM (emit (RedirectEnter k)) (
     bindM (try_finally
              (call (RunCommand ([''sos'', ''run'', script] @ argv))
                    (run_command x host ([''sos'', ''run'', script] @ argv)))
              (emit (RedirectExit k))) (\<lambda>ret.
     if ret \<noteq> 0 then
       bindM (kernel_attr kern ''send_response'') (\<lambda>k'.
       emit (SendResponse k' ''stream'' ''stderr''
               (''remote execution of workflow exited with code '' @ str_int ret)))
     else returnM ())))"

definition remote_handler :: "kernel option \<Rightarrow> exn \<Rightarrow> unit M option" where
  "remote_handler kern e =
     (if is_Exception e then
        Some (case kern of
                None \<Rightarrow> returnM ()
              | Some k \<Rightarrow> emit (SendResponse k ''stream'' ''stdout'' (msg e)))
      else None)"

definition remote_run :: "ext \<Rightarrow> kernel option \<Rightarrow> nat \<Rightarrow> string \<Rightarrow> string list \<Rightarrow> unit M" where
  "remote_run x kern host script argv =
     try_except (remote_try_body x kern host script argv) (remote_handler kern)"

text \<open>
  \<^verbatim>\<open>
  if args.__remote__:
      cfg = load_config_files(args.__config__)
      env.sos_dict.set('CONFIG', cfg)
      host = Host(args.__remote__)
      if not code.strip():
          return
      script = os.path.join('.sos', '__interactive__.sos')
      with open(script, 'w') as s:
          s.write(code)
      print(f'HINT: Executing workflow on {args.__remote__}')
      host.send_to_host(script)
      argv = shlex.split(raw_args) if isinstance(raw_args, str) else raw_args
      argv = remove_arg(argv, '-r')
      argv = remove_arg(argv, '-c')
      try: ... except Exception as e: ...
      return
  \<close>
  At this point \<^verbatim>\<open>raw_args\<close> is already the token list.
\<close>

definition remote_delegate ::
    "ext \<Rightarrow> string \<Rightarrow> string list \<Rightarrow> kernel option \<Rightarrow> parsed_args \<Rightarrow> string \<Rightarrow> pyval M" where
  "remote_delegate x code raw_args kern a remote =
     bindM (call (LoadConfigFiles (arg_config a)) (load_config_files x (arg_config a))) (\<lambda>cfg.
     thenM (modify (\<lambda>w. w\<lparr>sos_dict := dict_set (sos_dict w) ''CONFIG'' cfg\<rparr>)) (
     bindM (call (HostInit remote) (Host x remote)) (\<lambda>host.
     if strip code = [] then returnM PNone
     else
       (let script = ''.sos/__interactive__.sos'' in
        thenM (emit (WriteFile script code)) (
        thenM (emit (Print (''HINT: Executing workflow on '' @ remote))) (
        thenM (call (SendToHost script) (send_to_host x host script)) (
        (let argv = remove_arg x (remove_arg x raw_args ''-r'') ''-c'' in
         thenM (remote_run x kern host script argv) (returnM PNone)))))))))"

text \<open>
  \<^verbatim>\<open>
  if args.__bin_dirs__:
      for d in args.__bin_dirs__:
          if d == '~/.sos/bin' and not os.path.isdir(os.path.expanduser(d)):
              os.makedirs(os.path.expanduser(d), exist_ok=True)
      os.environ['PATH'] = os.pathsep.join(
          [os.path.expanduser(x) for x in args.__bin_dirs__]) + os.pathsep + os.environ['PATH']
  \<close>
\<close>

fun make_bin_dirs :: "ext \<Rightarrow> string list \<Rightarrow> unit M" where
  "make_bin_dirs x [] = returnM ()"
| "make_bin_dirs x (d # ds) =
     thenM (\<lambda>w. if d = ''~/.sos/bin'' \<and> expanduser x d \<notin> set (directories w)
                then (Inr (), w\<lparr>directories := expanduser x d # directories w,
                                events := events w @ [Makedirs (expanduser x d)]\<rparr>)
                else (Inr (), w))
           (make_bin_dirs x ds)"

definition prepend_bin_dirs :: "ext \<Rightarrow> parsed_args \<Rightarrow> unit M" where
  "prepend_bin_dirs x a =
     (case arg_bin_dirs a of
        None \<Rightarrow> returnM ()
      | Some ds \<Rightarrow>
          if ds = [] then returnM ()
          else
            thenM (make_bin_dirs x ds) (
            modify (\<lambda>w. w\<lparr>environ_PATH :=
               join (pathsep x) (map (expanduser x) ds) @ pathsep x @ environ_PATH w\<rparr>)))"

text \<open>
  \<^verbatim>\<open>
  env.sos_dict.set('__step_output__', sos_targets([]))
  for k in ['__step_input__', '__default_output__', 'step_input', 'step_output',
            'step_depends', '_input', '_output', '_depends']:
      env.sos_dict.pop(k, None)
  \<close>
\<close>

definition clear_step_keys :: "unit M" where
  "clear_step_keys =
     thenM (modify (\<lambda>w. w\<lparr>sos_dict := dict_set (sos_dict w) ''__step_output__'' (PTargets [])\<rparr>)) (
     modify (\<lambda>w. w\<lparr>sos_dict := foldl dict_pop (sos_dict w)
        [''__step_input__'', ''__default_output__'', ''step_input'', ''step_output'',
         ''step_depends'', ''_input'', ''_output'', ''_depends'']\<rparr>))"

text \<open>The dictionary literal \<^verbatim>\<open>config = {...}\<close> of lines 230 to 251.\<close>

definition opt_str :: "string option \<Rightarrow> pyval" where
  "opt_str s = (case s of None \<Rightarrow> PNone | Some v \<Rightarrow> PStr v)"

definition opt_int :: "int option \<Rightarrow> pyval" where
  "opt_int s = (case s of None \<Rightarrow> PNone | Some v \<Rightarrow> PInt v)"

definition opt_strs :: "string list option \<Rightarrow> pyval" where
  "opt_strs s = (case s of None \<Rightarrow> PNone | Some v \<Rightarrow> PList (map PStr v))"

definition build_config :: "parsed_args \<Rightarrow> string list \<Rightarrow> string \<Rightarrow> (string \<times> pyval) list" where
  "build_config a workflow_args workdir =
     [(''config_file'', opt_str (arg_config a)),
      (''output_dag'', opt_str (arg_dag a)),
      (''output_report'', opt_str (arg_report a)),
      (''sig_mode'', if arg_dryrun a then PStr ''ignore'' else opt_str (arg_sig_mode a)),
      (''default_queue'', case arg_queue a of None \<Rightarrow> PStr '''' | Some q \<Rightarrow> PStr q),
      (''wait_for_task'', if arg_wait a \<or> arg_dryrun a then PBool True
                           else if arg_no_wait a then PBool False else PNone),
      (''resume_mode'', PBool False),
      (''run_mode'', if arg_dryrun a then PStr ''dryrun'' else PStr ''interactive''),
      (''verbosity'', opt_int (arg_verbosity a)),
      (''max_procs'', opt_int (arg_max_procs a)),
      (''max_running_jobs'', opt_int (arg_max_running_jobs a)),
      (''workdir'', PStr workdir),
      (''script'', PStr ''interactive''),
      (''workflow'', opt_str (arg_workflow a)),
      (''targets'', opt_strs (arg_targets a)),
      (''bin_dirs'', opt_strs (arg_bin_dirs a)),
      (''workflow_args'', PList (map PStr workflow_args))]"

text \<open>Subscripting a value by a string key, \<^verbatim>\<open>v[k]\<close>.\<close>

definition py_getitem :: "pyval \<Rightarrow> string \<Rightarrow> exn + pyval" where
  "py_getitem v k =
     (case v of PDict d \<Rightarrow> dict_get d k
      | _ \<Rightarrow> Inl (TypeError ''object is not subscriptable''))"

definition env_config_sockets :: "string \<Rightarrow> pyval M" where
  "env_config_sockets k =
     (\<lambda>w. case dict_get (env_config w) ''sockets'' of
             Inl e \<Rightarrow> (Inl e, w)
           | Inr s \<Rightarrow> (py_getitem s k, w))"

text \<open>
  The workflow branch of the \<^verbatim>\<open>try\<close> block:
  \<^verbatim>\<open>
  script = SoS_Script(content=code)
  workflow = script.workflow(args.workflow, use_default=not args.__targets__)
  config['tapping'] = 'slave'
  config['sockets'] = {
      'tapping_logging': env.config['sockets']['tapping_logging'],
      'tapping_controller': env.config['sockets']['tapping_controller']
  }
  executor = Tapped_Executor(workflow, args=workflow_args, config=config,
      targets=args.__targets__)
  executor.start()
  return
  \<close>
\<close>

definition falsy_list :: "'a list option \<Rightarrow> bool" where
  "falsy_list l = (case l of None \<Rightarrow> True | Some xs \<Rightarrow> xs = [])"

definition workflow_branch ::
    "ext \<Rightarrow> string \<Rightarrow> parsed_args \<Rightarrow> string list \<Rightarrow> (string \<times> pyval) list \<Rightarrow> pyval M" where
  "workflow_branch x code a workflow_args cfg =
     bindM (call (SoSScript code) (SoS_Script x code)) (\<lambda>script.
     bindM (call (ScriptWorkflow (arg_workflow a) (Some (falsy_list (arg_targets a))))
                 (script_workflow x script (arg_workflow a) (Some (falsy_list (arg_targets a)))))
       (\<lambda>wf.
     (let cfg1 = dict_set cfg ''tapping'' (PStr ''slave'') in
      bindM (env_config_sockets ''tapping_logging'') (\<lambda>tl.
      bindM (env_config_sockets ''tapping_controller'') (\<lambda>tc.
      (let cfg2 = dict_set cfg1 ''sockets''
                    (PDict [(''tapping_logging'', tl), (''tapping_controller'', tc)]);
           executor = \<lparr>self_workflow = wf, self_args = workflow_args,
                       self_config = cfg2, self_targets = arg_targets a\<rparr>
       in thenM (emit (ProcessStart executor)) (returnM PNone)))))))"

text \<open>
  The scratch branch:
  \<^verbatim>\<open>
  env.config['master_id'] = '0'
  if not any([SOS_SECTION_HEADER.match(line) or line.startswith('%from')
              or line.startswith('%include') for line in code.splitlines()]):
      code = '[scratch_0]\n' + code
      script = SoS_Script(content=code)
  else:
      return
  workflow = script.workflow(args.workflow)
  return execute_scratch_cell(workflow.sections[0], config=config)['__last_res__']
  \<close>
\<close>

definition has_header_or_directive :: "ext \<Rightarrow> string \<Rightarrow> bool" where
  "has_header_or_directive x code =
     list_ex (\<lambda>line. SOS_SECTION_HEADER_match x line \<or> startswith line ''%from''
                      \<or> startswith line ''%include'')
             (splitlines code)"

definition wrap_scratch :: "string \<Rightarrow> string" where
  "wrap_scratch code = ''[scratch_0]'' @ [CHR 0x0A] @ code"

definition run_scratch ::
    "ext \<Rightarrow> string \<Rightarrow> parsed_args \<Rightarrow> (string \<times> pyval) list \<Rightarrow> pyval M" where
  "run_scratch x wrapped a cfg =
     bindM (call (SoSScript wrapped) (SoS_Script x wrapped)) (\<lambda>script.
     bindM (call (ScriptWorkflow (arg_workflow a) None)
                 (script_workflow x script (arg_workflow a) None)) (\<lambda>wf.
     bindM (subscript0 (sections wf)) (\<lambda>section.
     bindM (execute_scratch_cell x section cfg) (\<lambda>res.
     (\<lambda>w. (dict_get res ''__last_res__'', w))))))"

definition scratch_branch ::
    "ext \<Rightarrow> string \<Rightarrow> parsed_args \<Rightarrow> (string \<times> pyval) list \<Rightarrow> pyval M" where
  "scratch_branch x code a cfg =
     thenM (modify (\<lambda>w. w\<lparr>env_config := dict_set (env_config w) ''master_id'' (PStr ''0'')\<rparr>)) (
     if \<not> has_header_or_directive x code then run_scratch x (wrap_scratch code) a cfg
     else returnM PNone)"

text \<open>
  \<^verbatim>\<open>
  try:
      if not code.strip():
          return
      if workflow_mode: ...
      else: ...
  except PendingTasks:
      raise
  except SystemExit:
      return
  except Exception:
      if args.verbosity and args.verbosity > 2:
          sys.stderr.write(get_traceback())
      raise
  finally:
      env.config['sig_mode'] = 'ignore'
      env.verbosity = 2
  \<close>
\<close>

definition dispatch_try_body ::
    "ext \<Rightarrow> string \<Rightarrow> bool \<Rightarrow> parsed_args \<Rightarrow> string list \<Rightarrow> (string \<times> pyval) list \<Rightarrow> pyval M" where
  "dispatch_try_body x code workflow_mode a workflow_args cfg =
     (if strip code = [] then returnM PNone
      else if workflow_mode then workflow_branch x code a workflow_args cfg
      else scratch_branch x code a cfg)"

definition verbosity_above_2 :: "int option \<Rightarrow> bool" where
  "verbosity_above_2 v = (case v of None \<Rightarrow> False | Some n \<Rightarrow> n \<noteq> 0 \<and> n > 2)"

definition dispatch_handler :: "ext \<Rightarrow> parsed_args \<Rightarrow> exn \<Rightarrow> pyval M option" where
  "dispatch_handler x a e =
     (case e of
        PendingTasks _ \<Rightarrow> Some (raiseM e)
      | SystemExit _ \<Rightarrow> Some (returnM PNone)
      | _ \<Rightarrow>
          if is_Exception e then
            Some (thenM (if verbosity_above_2 (arg_verbosity a)
                         then emit (StderrWrite (get_traceback x)) else returnM ())
                        (raiseM e))
          else None)"

definition dispatch_finally :: "unit M" where
  "dispatch_finally =
     thenM (modify (\<lambda>w. w\<lparr>env_config := dict_set (env_config w) ''sig_mode'' (PStr ''ignore'')\<rparr>)) (
     modify (\<lambda>w. w\<lparr>env_verbosity := Some 2\<rparr>))"

definition dispatch_body ::
    "ext \<Rightarrow> string \<Rightarrow> bool \<Rightarrow> parsed_args \<Rightarrow> string list \<Rightarrow> (string \<times> pyval) list \<Rightarrow> pyval M" where
  "dispatch_body x code workflow_mode a workflow_args cfg =
     try_finally
       (try_except (dispatch_try_body x code workflow_mode a workflow_args cfg)
                   (dispatch_handler x a))
       dispatch_finally"

text \<open>Lines 216 to 295: the path taken when no remote host is requested.\<close>

definition local_dispatch ::
    "ext \<Rightarrow> string \<Rightarrow> bool \<Rightarrow> parsed_args \<Rightarrow> string list \<Rightarrow> pyval M" where
  "local_dispatch x code workflow_mode a workflow_args =
     thenM (prepend_bin_dirs x a) (
     thenM clear_step_keys (
     bindM (\<lambda>w. (Inr (build_config a workflow_args (cwd w)), w)) (\<lambda>cfg.
     dispatch_body x code workflow_mode a workflow_args cfg)))"

text \<open>Lines 150 to 295: everything after the arguments are parsed.\<close>

definition dispatch_parsed ::
    "ext \<Rightarrow> string \<Rightarrow> string list \<Rightarrow> kernel option \<Rightarrow> bool \<Rightarrow> parsed_args \<Rightarrow> string list
       \<Rightarrow> pyval M" where
  "dispatch_parsed x code raw_args kern workflow_mode a0 workflow_args =
     thenM (modify (\<lambda>w. w\<lparr>sys_argv := ''%run'' # raw_args\<rparr>)) (
     thenM (modify (\<lambda>w. w\<lparr>env_verbosity := arg_verbosity a0\<rparr>)) (
     thenM (setup_logger kern) (
     (let a = resolve_artifacts (strftime_mdy_HM (now x)) a0 in
      case arg_remote a of
        None \<Rightarrow> local_dispatch x code workflow_mode a workflow_args
      | Some remote \<Rightarrow>
          if remote = [] then local_dispatch x code workflow_mode a workflow_args
          else remote_delegate x code raw_args kern a remote))))"

text \<open>
  \<^verbatim>\<open>
  def run_sos_workflow(code=None, raw_args='', kernel=None, workflow_mode=False):
      raw_args = shlex.split(raw_args) if isinstance(raw_args, str) else raw_args
      if code is None or '-h' in raw_args:
          parser = get_run_parser(interactive=True, with_workflow=True)
          parser.print_help()
          return
      ...
  \<close>
\<close>

definition run_sos_workflow ::
    "ext \<Rightarrow> string option \<Rightarrow> raw_args \<Rightarrow> kernel option \<Rightarrow> bool \<Rightarrow> pyval M" where
  "run_sos_workflow x code raw kern workflow_mode =
     bindM (split_raw_args x raw) (\<lambda>raw_args.
       case code of
         None \<Rightarrow> print_help
       | Some c \<Rightarrow>
           if ''-h'' \<in> set raw_args then print_help
           else
             bindM (parse_raw_args x raw_args) (\<lambda>(a, workflow_args).
               dispatch_parsed x c raw_args kern workflow_mode a workflow_args))"

section \<open>What a request with blank code may still do\<close>

text \<open>
  The calls that prepare a dispatch without running anything: printing the usage,
  parsing the arguments, loading the configuration, looking up the remote host and
  creating the default binary directory.
\<close>

fun setup_event :: "event \<Rightarrow> bool" where
  "setup_event PrintHelp = True"
| "setup_event (ParseKnownArgs _ _) = True"
| "setup_event (LoadConfigFiles _) = True"
| "setup_event (HostInit _) = True"
| "setup_event (Makedirs _) = True"
| "setup_event _ = False"

text \<open>From \<open>w\<close> to \<open>w'\<close> the trace only grew, and only by such calls.\<close>

definition only_setup_since :: "world \<Rightarrow> world \<Rightarrow> bool" where
  "only_setup_since w w' =
     (take (length (events w)) (events w') = events w \<and>
      list_all setup_event (drop (length (events w)) (events w')))"

section \<open>Concrete states used by the examples\<close>

definition world0 :: world where
  "world0 = \<lparr> sys_argv = [''ipykernel_launcher.py''],
              env_verbosity = Some 2,
              logger_handlers = [OtherHandler],
              env_config = [(''sockets'', PDict [(''tapping_logging'', PInt 5001),
                                                (''tapping_controller'', PInt 5002)])],
              sos_dict = [(''step_input'', PStr ''a.txt''), (''x'', PInt 1)],
              env_sockets = [(''controller_req_socket'', Channel 1),
                             (''tapping_logging_socket'', Channel 2),
                             (''tapping_controller_socket'', Channel 3),
                             (''tapping_controller.socket'', Channel 4)],
              environ_PATH = ''/usr/bin'',
              directories = [],
              cwd = ''/home/user'',
              events = [] \<rparr>"

definition args0 :: parsed_args where
  "args0 = \<lparr> arg_verbosity = Some 2, arg_dag = None, arg_report = None, arg_remote = None,
              arg_config = None, arg_bin_dirs = Some [''~/.sos/bin''], arg_dryrun = False,
              arg_sig_mode = Some ''default'', arg_queue = None, arg_wait = False,
              arg_no_wait = False, arg_max_procs = Some 4, arg_max_running_jobs = None,
              arg_workflow = Some ''default'', arg_targets = None \<rparr>"

definition args1 :: parsed_args where
  "args1 = args0\<lparr>arg_report := Some ''''\<rparr>"

fun option_value :: "string \<Rightarrow> string list \<Rightarrow> string option" where
  "option_value opt [] = None"
| "option_value opt [t] = None"
| "option_value opt (t # v # ts) = (if t = opt then Some v else option_value opt (v # ts))"

fun drop_option :: "string list \<Rightarrow> string \<Rightarrow> string list" where
  "drop_option [] opt = []"
| "drop_option [t] opt = (if t = opt then [] else [t])"
| "drop_option (t # v # ts) opt = (if t = opt then ts else t # drop_option (v # ts) opt)"

text \<open>
  A small stand-in for the engine: the parser knows \<^verbatim>\<open>-r HOST\<close> and \<^verbatim>\<open>-v N\<close> is left at
  its default, every engine call succeeds, the remote command exits with code 3.
\<close>

definition ext0 :: ext where
  "ext0 = \<lparr> shlex_split = (\<lambda>s. if s = [] then Inr [] else Inr [s]),
             parse_known_args = (\<lambda>with_workflow toks.
                Inr (args0\<lparr>arg_remote := option_value ''-r'' toks,
                           arg_workflow := (if with_workflow then Some ''default'' else Some ''unset'')\<rparr>,
                     [])),
             now = \<lparr>dt_year = 2018, dt_month = 3, dt_day = 7, dt_hour = 9, dt_minute = 5\<rparr>,
             load_config_files = (\<lambda>f. Inr (PDict [])),
             Host = (\<lambda>h. Inr 7),
             send_to_host = (\<lambda>h f. Inr ()),
             remove_arg = drop_option,
             run_command = (\<lambda>h cmd. Inr 3),
             expanduser = (\<lambda>p. if startswith p ''~'' then ''/home/user'' @ drop 1 p else p),
             pathsep = '':'',
             SoS_Script = (\<lambda>c. Inr 1),
             script_workflow = (\<lambda>s n u. Inr \<lparr>wf_name = ''scratch'', sections = [''scratch_0'']\<rparr>),
             SOS_SECTION_HEADER_match = (\<lambda>l. startswith l ''[''),
             prepare_env = (\<lambda>s. Inr ()),
             analyze_section = (\<lambda>s. Inr \<lparr>signature_vars = PList [], environ_vars = PList [],
                                          changed_vars = PList []\<rparr>),
             Interactive_Step_Executor = (\<lambda>s. Inr 1),
             step_executor_run = (\<lambda>e. Inr [(''__last_res__'', PInt 42)]),
             Base_Executor = (\<lambda>wf a c. Inr 1),
             Base_Executor_run = (\<lambda>e t. Inr (PInt 0)),
             get_traceback = ''Traceback (most recent call last)'' \<rparr>"



definition ext_step_raises :: "exn \<Rightarrow> ext" where
  "ext_step_raises e = ext0\<lparr>step_executor_run := (\<lambda>ex. Inl e)\<rparr>"

definition ext_command :: "(exn + int) \<Rightarrow> ext" where
  "ext_command r = ext0\<lparr>run_command := (\<lambda>h cmd. r)\<rparr>"

section \<open>Verified properties\<close>

lemmas monad_defs = returnM_def raiseM_def bindM_def thenM_def emit_def modify_def call_def
  try_except_def try_finally_def env_socket_def

subsection \<open>Controller shutdown\<close>

text \<open>
  C9. \<open>stop_controller\<close> on an absent handle changes nothing and touches no channel or
  thread. On a live handle, with the request channel bound, it sends \<^verbatim>\<open>['done']\<close> on the
  request channel, receives the acknowledgement on the same channel, disconnects the
  channel bindings and joins the controller thread, in this order and nothing else.
\<close>

theorem stop_controller_protocol:
  "stop_controller None w = (Inr (), w) \<and>
   (map_of (env_sockets w) ''controller_req_socket'' = Some s \<longrightarrow>
    stop_controller (Some u) w =
      (Inr (), w\<lparr>events := events w @
         [SendPyobj s (PList [PStr ''done'']), Recv s, DisconnectControllers, Join]\<rparr>))"
  by (simp add: stop_controller_def returnM_def bindM_def thenM_def emit_def env_socket_def)

theorem stop_controller_protocol_witness:
  "map_of (env_sockets world0) ''controller_req_socket'' = Some (Channel 1) \<and>
   stop_controller None world0 = (Inr (), world0) \<and>
   events (snd (stop_controller (Some ()) world0)) =
     [SendPyobj (Channel 1) (PList [PStr ''done'']), Recv (Channel 1),
      DisconnectControllers, Join]"
  using stop_controller_protocol [of world0 "Channel 1" "()"]
  by (simp add: world0_def)

subsection \<open>The worker process\<close>




subsection \<open>The scratch executor\<close>

text \<open>
  C6. Once the environment is prepared, an \<^verbatim>\<open>UnknownTarget\<close> or \<^verbatim>\<open>RemovedTarget\<close> raised by
  the engine leaves \<open>execute_scratch_cell\<close> as a \<^verbatim>\<open>RuntimeError\<close> whose message is
  \<^verbatim>\<open>Unavailable target\<close> followed by the target; every other exception leaves it
  unchanged; and a result is returned as it is.
\<close>

theorem execute_scratch_cell_exceptions:
  assumes "prepare_env x '''' = Inr ()"
  shows
   "(scratch_engine_outcome x section = Inl e \<and> (e = UnknownTarget t m \<or> e = RemovedTarget t m) \<longrightarrow>
       fst (execute_scratch_cell x section cfg w) = Inl (RuntimeError (''Unavailable target '' @ t))) \<and>
    (scratch_engine_outcome x section = Inl e \<and>
       (\<forall>t m. e \<noteq> UnknownTarget t m \<and> e \<noteq> RemovedTarget t m) \<longrightarrow>
       fst (execute_scratch_cell x section cfg w) = Inl e) \<and>
    (scratch_engine_outcome x section = Inr res \<longrightarrow>
       fst (execute_scratch_cell x section cfg w) = Inr res)"
  using assms
  by (cases e)
     (auto simp add: execute_scratch_cell_def scratch_try_body_def scratch_engine_outcome_def
        monad_defs split: sum.splits)

theorem execute_scratch_cell_exceptions_witness:
  "prepare_env (ext_step_raises (UnknownTarget ''a.txt'' ''missing'')) '''' = Inr () \<and>
   scratch_engine_outcome (ext_step_raises (UnknownTarget ''a.txt'' ''missing'')) ''scratch_0''
     = Inl (UnknownTarget ''a.txt'' ''missing'') \<and>
   fst (execute_scratch_cell (ext_step_raises (UnknownTarget ''a.txt'' ''missing''))
          ''scratch_0'' [] world0) = Inl (RuntimeError ''Unavailable target a.txt'') \<and>
   scratch_engine_outcome (ext_step_raises (KeyError ''x'')) ''scratch_0'' = Inl (KeyError ''x'') \<and>
   fst (execute_scratch_cell (ext_step_raises (KeyError ''x'')) ''scratch_0'' [] world0)
     = Inl (KeyError ''x'')"
  using execute_scratch_cell_exceptions
          [of "ext_step_raises (UnknownTarget ''a.txt'' ''missing'')" "''scratch_0''"
              "UnknownTarget ''a.txt'' ''missing''" "''a.txt''" "''missing''" "[]" world0]
        execute_scratch_cell_exceptions
          [of "ext_step_raises (KeyError ''x'')" "''scratch_0''" "KeyError ''x''" _ _ "[]" world0]
  by (simp add: ext_step_raises_def ext0_def scratch_engine_outcome_def)

subsection \<open>Remote delegation\<close>

text \<open>
  C7. With a kernel as output sink, the remote command is run inside the kernel's
  redirection. Exit code 0 sends no message; an exit code \<open>n\<close> other than 0 sends one
  stream message whose text ends with \<open>n\<close> in decimal; an exception derived from
  \<^verbatim>\<open>Exception\<close> raised by the command sends its text as a stream message. In all three
  cases \<open>remote_run\<close> returns normally. Without a kernel the command is not run at all
  and nothing is raised.
\<close>

theorem remote_run_report:
  assumes "cmd = [''sos'', ''run'', script] @ argv"
  shows
   "(run_command x host cmd = Inr 0 \<longrightarrow>
       remote_run x (Some k) host script argv w =
         (Inr (), w\<lparr>events := events w @ [RedirectEnter k, RunCommand cmd, RedirectExit k]\<rparr>)) \<and>
    (run_command x host cmd = Inr n \<and> n \<noteq> 0 \<longrightarrow>
       remote_run x (Some k) host script argv w =
         (Inr (), w\<lparr>events := events w @
            [RedirectEnter k, RunCommand cmd, RedirectExit k,
             SendResponse k ''stream'' ''stderr''
               (''remote execution of workflow exited with code '' @ str_int n)]\<rparr>)) \<and>
    (run_command x host cmd = Inl e \<and> is_Exception e \<longrightarrow>
       remote_run x (Some k) host script argv w =
         (Inr (), w\<lparr>events := events w @
            [RedirectEnter k, RunCommand cmd, RedirectExit k,
             SendResponse k ''stream'' ''stdout'' (msg e)]\<rparr>)) \<and>
    remote_run x None host script argv w = (Inr (), w)"
  using assms
  by (simp add: remote_run_def remote_try_body_def remote_handler_def kernel_attr_def monad_defs)

theorem remote_run_report_witness:
  "events (snd (remote_run (ext_command (Inr 0)) (Some (Kernel 1)) 7 ''s.sos'' [] world0)) =
     [RedirectEnter (Kernel 1), RunCommand [''sos'', ''run'', ''s.sos''], RedirectExit (Kernel 1)] \<and>
   remote_run (ext_command (Inr 3)) (Some (Kernel 1)) 7 ''s.sos'' [] world0 =
     (Inr (), world0\<lparr>events :=
        [RedirectEnter (Kernel 1), RunCommand [''sos'', ''run'', ''s.sos''], RedirectExit (Kernel 1),
         SendResponse (Kernel 1) ''stream'' ''stderr''
           ''remote execution of workflow exited with code 3'']\<rparr>) \<and>
   is_Exception (OtherException ''connection lost'') \<and>
   remote_run (ext_command (Inl (OtherException ''connection lost''))) (Some (Kernel 1)) 7
       ''s.sos'' [] world0 =
     (Inr (), world0\<lparr>events :=
        [RedirectEnter (Kernel 1), RunCommand [''sos'', ''run'', ''s.sos''], RedirectExit (Kernel 1),
         SendResponse (Kernel 1) ''stream'' ''stdout'' ''connection lost'']\<rparr>)"
  using remote_run_report [of "[''sos'', ''run'', ''s.sos'']" "''s.sos''" "[]"
          "ext_command (Inr 0)" 7 "Kernel 1" world0]
        remote_run_report [of "[''sos'', ''run'', ''s.sos'']" "''s.sos''" "[]"
          "ext_command (Inr 3)" 7 "Kernel 1" world0 3]
        remote_run_report [of "[''sos'', ''run'', ''s.sos'']" "''s.sos''" "[]"
          "ext_command (Inl (OtherException ''connection lost''))" 7 "Kernel 1" world0 _
          "OtherException ''connection lost''"]
  by (simp add: ext_command_def ext0_def world0_def str_int_def digit_char_def)


subsection \<open>Default artifact names\<close>

lemma str_nat_length_1: "n < 10 \<Longrightarrow> length (str_nat n) = 1"
  by (subst str_nat.simps) simp

lemma str_nat_length_2: "10 \<le> n \<Longrightarrow> n < 100 \<Longrightarrow> length (str_nat n) = 2"
  by (subst str_nat.simps) (simp add: str_nat_length_1)

lemma pad2_length: "n < 100 \<Longrightarrow> length (pad2 n) = 2"
  by (cases "n < 10") (simp_all add: pad2_def str_nat_length_1 str_nat_length_2)

lemma strftime_shape:
  assumes "dt_month d < 100" and "dt_day d < 100" and "dt_hour d < 100" and "dt_minute d < 100"
  shows "length (strftime_mdy_HM d) = 11 \<and> strftime_mdy_HM d ! 6 = CHR ''_''"
  using assms by (simp add: strftime_mdy_HM_def pad2_length nth_append)

text \<open>
  C5. Let \<open>T\<close> be the dispatch time formatted as \<^verbatim>\<open>%m%d%y_%H%M\<close>: eleven characters with
  the underscore in the middle. An unspecified DAG option resolves to \<^verbatim>\<open>workflow_T.dot\<close> and
  an unspecified report option to \<^verbatim>\<open>workflow_T.html\<close>; an empty-string override resolves to
  \<^verbatim>\<open>None\<close>; any other value is kept. The resolved values are what the configuration
  dictionary holds under \<^verbatim>\<open>output_dag\<close> and \<^verbatim>\<open>output_report\<close>.
\<close>

theorem resolve_artifacts_defaults:
  assumes "dt_month d < 100" and "dt_day d < 100" and "dt_hour d < 100" and "dt_minute d < 100"
    and "T = strftime_mdy_HM d"
    and "a' = resolve_artifacts T a"
    and "cfg = build_config a' workflow_args workdir"
  shows
   "length T = 11 \<and> T ! 6 = CHR ''_'' \<and>
    (arg_dag a = None \<longrightarrow> arg_dag a' = Some (''workflow_'' @ T @ ''.dot'')) \<and>
    (arg_dag a = Some '''' \<longrightarrow> arg_dag a' = None) \<and>
    (arg_dag a = Some s \<and> s \<noteq> '''' \<longrightarrow> arg_dag a' = Some s) \<and>
    (arg_report a = None \<longrightarrow> arg_report a' = Some (''workflow_'' @ T @ ''.html'')) \<and>
    (arg_report a = Some '''' \<longrightarrow> arg_report a' = None) \<and>
    (arg_report a = Some s \<and> s \<noteq> '''' \<longrightarrow> arg_report a' = Some s) \<and>
    dict_get cfg ''output_dag'' = Inr (opt_str (arg_dag a')) \<and>
    dict_get cfg ''output_report'' = Inr (opt_str (arg_report a'))"
proof -
  have shape: "length T = 11 \<and> T ! 6 = CHR ''_''"
    using assms strftime_shape by simp
  have dag: "arg_dag a' =
      (case arg_dag a of None \<Rightarrow> Some (''workflow_'' @ T @ ''.dot'')
       | Some v \<Rightarrow> if v = '''' then None else Some v)"
    using assms(6)
    by (simp add: resolve_artifacts_def resolve_dag_def resolve_report_def
          split: option.splits)
  have report: "arg_report a' =
      (case arg_report a of None \<Rightarrow> Some (''workflow_'' @ T @ ''.html'')
       | Some v \<Rightarrow> if v = '''' then None else Some v)"
    using assms(6)
    by (simp add: resolve_artifacts_def resolve_dag_def resolve_report_def
          split: option.splits)
  have cfg: "dict_get cfg ''output_dag'' = Inr (opt_str (arg_dag a')) \<and>
             dict_get cfg ''output_report'' = Inr (opt_str (arg_report a'))"
    using assms(7) by (simp add: build_config_def dict_get_def)
  show ?thesis
    using shape dag report cfg by simp
qed

theorem resolve_artifacts_defaults_witness:
  "strftime_mdy_HM (now ext0) = ''030718_0905'' \<and>
   arg_dag args1 = None \<and>
   arg_dag (resolve_artifacts ''030718_0905'' args1) = Some ''workflow_030718_0905.dot'' \<and>
   arg_report args1 = Some '''' \<and>
   arg_report (resolve_artifacts ''030718_0905'' args1) = None \<and>
   dict_get (build_config (resolve_artifacts ''030718_0905'' args1) [] ''/home/user'')
     ''output_report'' = Inr PNone"
proof -
  have T: "''030718_0905'' = strftime_mdy_HM (now ext0)"
    by (simp add: strftime_mdy_HM_def pad2_def ext0_def digit_char_def)
  have d: "dt_month (now ext0) < 100" "dt_day (now ext0) < 100"
          "dt_hour (now ext0) < 100" "dt_minute (now ext0) < 100"
    by (simp_all add: ext0_def)
  have a: "arg_dag args1 = None" "arg_report args1 = Some ''''"
    by (simp_all add: args1_def args0_def)
  note r = resolve_artifacts_defaults
      [where a = args1 and workflow_args = "[]" and workdir = "''/home/user''" and s = "''x''",
       OF d T refl refl]
  show ?thesis
    using r a T by (simp add: opt_str_def)
qed

subsection \<open>The logger title\<close>




subsection \<open>Argument parsing mode\<close>

text \<open>
  C4. For a request that passes the help check (there is code and no token is \<^verbatim>\<open>-h\<close>):
  when the token list is not empty and its first token, stripped of leading whitespace,
  starts with \<^verbatim>\<open>-\<close>, the dispatcher parses with the argument-only parser and goes on with
  the workflow name set to \<^verbatim>\<open>None\<close>, whatever the parser gave; otherwise it
  parses with the parser that supports a workflow name and keeps its result.
\<close>

theorem parse_mode_selection:
  assumes "split_raw_args x raw w = (Inr raw_args, w)"
    and "''-h'' \<notin> set raw_args"
  shows
   "(raw_args \<noteq> [] \<and> startswith (lstrip (hd raw_args)) ''-'' \<longrightarrow>
       run_sos_workflow x (Some code) raw kern workflow_mode w =
         (case parse_known_args x False raw_args of
            Inl e \<Rightarrow> (Inl e, w\<lparr>events := events w @ [ParseKnownArgs False raw_args]\<rparr>)
          | Inr (a, workflow_args) \<Rightarrow>
              dispatch_parsed x code raw_args kern workflow_mode
                (a\<lparr>arg_workflow := None\<rparr>) workflow_args
                (w\<lparr>events := events w @ [ParseKnownArgs False raw_args]\<rparr>))) \<and>
    (\<not> (raw_args \<noteq> [] \<and> startswith (lstrip (hd raw_args)) ''-'') \<longrightarrow>
       run_sos_workflow x (Some code) raw kern workflow_mode w =
         (case parse_known_args x True raw_args of
            Inl e \<Rightarrow> (Inl e, w\<lparr>events := events w @ [ParseKnownArgs True raw_args]\<rparr>)
          | Inr (a, workflow_args) \<Rightarrow>
              dispatch_parsed x code raw_args kern workflow_mode a workflow_args
                (w\<lparr>events := events w @ [ParseKnownArgs True raw_args]\<rparr>)))"
  using assms
  by (auto simp add: run_sos_workflow_def parse_raw_args_def monad_defs
        split: sum.splits prod.splits)

theorem parse_mode_selection_witness:
  "split_raw_args ext0 (RawList [''-v'', ''1'']) world0 = (Inr [''-v'', ''1''], world0) \<and>
   ''-h'' \<notin> set [''-v'', ''1''] \<and>
   startswith (lstrip (hd [''-v'', ''1''])) ''-'' \<and>
   arg_workflow (fst (projr (parse_known_args ext0 False [''-v'', ''1'']))) = Some ''unset'' \<and>
   run_sos_workflow ext0 (Some ''x = 1'') (RawList [''-v'', ''1'']) None False world0 =
     dispatch_parsed ext0 ''x = 1'' [''-v'', ''1''] None False
       (args0\<lparr>arg_remote := None, arg_workflow := None\<rparr>) []
       (world0\<lparr>events := [ParseKnownArgs False [''-v'', ''1'']]\<rparr>) \<and>
   \<not> startswith (lstrip (hd [''default''])) ''-'' \<and>
   run_sos_workflow ext0 (Some ''x = 1'') (RawList [''default'']) None False world0 =
     dispatch_parsed ext0 ''x = 1'' [''default''] None False
       (args0\<lparr>arg_remote := None, arg_workflow := Some ''default''\<rparr>) []
       (world0\<lparr>events := [ParseKnownArgs True [''default'']]\<rparr>)"
proof -
  have s1: "split_raw_args ext0 (RawList [''-v'', ''1'']) world0 = (Inr [''-v'', ''1''], world0)"
    and s2: "split_raw_args ext0 (RawList [''default'']) world0 = (Inr [''default''], world0)"
    by (simp_all add: split_raw_args_def returnM_def)
  have h1: "''-h'' \<notin> set [''-v'', ''1'']" and h2: "''-h'' \<notin> set [''default'']"
    by simp_all
  have f1: "startswith (lstrip (hd [''-v'', ''1''])) ''-''"
    and f2: "\<not> startswith (lstrip (hd [''default''])) ''-''"
    by (simp_all add: startswith_def lstrip_def isspace_def)
  have p1: "parse_known_args ext0 False [''-v'', ''1''] =
              Inr (args0\<lparr>arg_remote := None, arg_workflow := Some ''unset''\<rparr>, [])"
    and p2: "parse_known_args ext0 True [''default''] =
              Inr (args0\<lparr>arg_remote := None, arg_workflow := Some ''default''\<rparr>, [])"
    by (simp_all add: ext0_def)
  note r1 = parse_mode_selection
      [where kern = None and code = "''x = 1''" and workflow_mode = False, OF s1 h1]
  note r2 = parse_mode_selection
      [where kern = None and code = "''x = 1''" and workflow_mode = False, OF s2 h2]
  have e1: "events world0 = []"
    by (simp add: world0_def)
  show ?thesis
    using s1 h1 f1 f2 r1 r2 by (simp add: p1 p2 e1)
qed

subsection \<open>Scratch mode\<close>

text \<open>
  C3. In the execution phase of an inline request whose code is not blank: when no line
  of the code matches a section header or starts with \<^verbatim>\<open>%from\<close> or \<^verbatim>\<open>%include\<close>, the
  dispatcher goes on with the code prefixed by the line \<^verbatim>\<open>[scratch_0]\<close>, and, when that
  script parses and its workflow has a first section, runs that section through the
  scratch executor and returns its \<^verbatim>\<open>__last_res__\<close>; when some line does, the dispatcher
  returns \<^verbatim>\<open>None\<close> and calls nothing.
\<close>

theorem scratch_wrap_or_refuse:
  assumes "strip code \<noteq> []"
    and "wrapped = ''[scratch_0]'' @ [CHR 0x0A] @ code"
    and "w0 = w\<lparr>env_config := dict_set (env_config w) ''master_id'' (PStr ''0'')\<rparr>"
  shows
   "((\<forall>line \<in> set (splitlines code). \<not> SOS_SECTION_HEADER_match x line \<and>
         \<not> startswith line ''%from'' \<and> \<not> startswith line ''%include'') \<longrightarrow>
       dispatch_try_body x code False a workflow_args cfg w = run_scratch x wrapped a cfg w0 \<and>
       (SoS_Script x wrapped = Inr script \<and>
        script_workflow x script (arg_workflow a) None = Inr wflow \<and>
        sections wflow = sec # rest \<longrightarrow>
          dispatch_try_body x code False a workflow_args cfg w =
            bindM (execute_scratch_cell x sec cfg) (\<lambda>res w'. (dict_get res ''__last_res__'', w'))
              (w0\<lparr>events := events w @
                    [SoSScript wrapped, ScriptWorkflow (arg_workflow a) None]\<rparr>))) \<and>
    ((\<exists>line \<in> set (splitlines code). SOS_SECTION_HEADER_match x line \<or>
         startswith line ''%from'' \<or> startswith line ''%include'') \<longrightarrow>
       dispatch_body x code False a workflow_args cfg w =
         (Inr PNone,
          w\<lparr>env_config := dict_set (dict_set (env_config w) ''master_id'' (PStr ''0''))
                              ''sig_mode'' (PStr ''ignore''),
             env_verbosity := Some 2\<rparr>))"
proof -
  have no: "(\<forall>line \<in> set (splitlines code). \<not> SOS_SECTION_HEADER_match x line \<and>
               \<not> startswith line ''%from'' \<and> \<not> startswith line ''%include'')
            \<longleftrightarrow> \<not> has_header_or_directive x code"
    by (auto simp add: has_header_or_directive_def list_ex_iff)
  have yes: "(\<exists>line \<in> set (splitlines code). SOS_SECTION_HEADER_match x line \<or>
               startswith line ''%from'' \<or> startswith line ''%include'')
            \<longleftrightarrow> has_header_or_directive x code"
    by (auto simp add: has_header_or_directive_def list_ex_iff)
  have wrap: "\<not> has_header_or_directive x code \<Longrightarrow>
      dispatch_try_body x code False a workflow_args cfg w = run_scratch x wrapped a cfg w0"
    using assms
    by (simp add: dispatch_try_body_def scratch_branch_def wrap_scratch_def thenM_def bindM_def
          modify_def)
  have exec: "SoS_Script x wrapped = Inr script \<Longrightarrow>
        script_workflow x script (arg_workflow a) None = Inr wflow \<Longrightarrow>
        sections wflow = sec # rest \<Longrightarrow>
        run_scratch x wrapped a cfg w0 =
          bindM (execute_scratch_cell x sec cfg) (\<lambda>res w'. (dict_get res ''__last_res__'', w'))
            (w0\<lparr>events := events w @
                  [SoSScript wrapped, ScriptWorkflow (arg_workflow a) None]\<rparr>)"
    using assms(3)
    by (simp add: run_scratch_def subscript0_def bindM_def call_def returnM_def)
  have refuse: "has_header_or_directive x code \<Longrightarrow>
      dispatch_body x code False a workflow_args cfg w =
         (Inr PNone,
          w\<lparr>env_config := dict_set (dict_set (env_config w) ''master_id'' (PStr ''0''))
                              ''sig_mode'' (PStr ''ignore''),
             env_verbosity := Some 2\<rparr>)"
    using assms(1)
    by (simp add: dispatch_body_def dispatch_try_body_def scratch_branch_def dispatch_finally_def
          monad_defs)
  show ?thesis
    unfolding no yes using wrap exec refuse by simp
qed

theorem scratch_wrap_or_refuse_witness:
  "strip ''x = 1'' \<noteq> [] \<and>
   splitlines ''x = 1'' = [''x = 1''] \<and>
   \<not> SOS_SECTION_HEADER_match ext0 ''x = 1'' \<and>
   \<not> startswith ''x = 1'' ''%from'' \<and> \<not> startswith ''x = 1'' ''%include'' \<and>
   fst (dispatch_try_body ext0 ''x = 1'' False args0 [] [] world0) = Inr (PInt 42) \<and>
   strip ''[10]'' \<noteq> [] \<and>
   splitlines ''[10]'' = [''[10]''] \<and>
   SOS_SECTION_HEADER_match ext0 ''[10]'' \<and>
   dispatch_body ext0 ''[10]'' False args0 [] [] world0 =
     (Inr PNone,
      world0\<lparr>env_config := dict_set (dict_set (env_config world0) ''master_id'' (PStr ''0''))
                                  ''sig_mode'' (PStr ''ignore''),
             env_verbosity := Some 2\<rparr>)"
proof -
  have n1: "strip ''x = 1'' \<noteq> []" and n2: "strip ''[10]'' \<noteq> []"
    by (simp_all add: strip_def isspace_def)
  have l1: "splitlines ''x = 1'' = [''x = 1'']" and l2: "splitlines ''[10]'' = [''[10]'']"
    by (simp_all add: splitlines_def is_linebreak_def)
  have c1: "\<forall>line \<in> set (splitlines ''x = 1''). \<not> SOS_SECTION_HEADER_match ext0 line \<and>
              \<not> startswith line ''%from'' \<and> \<not> startswith line ''%include''"
    by (simp add: l1 ext0_def startswith_def)
  have c2: "\<exists>line \<in> set (splitlines ''[10]''). SOS_SECTION_HEADER_match ext0 line \<or>
              startswith line ''%from'' \<or> startswith line ''%include''"
    by (simp add: l2 ext0_def startswith_def)
  have o: "SoS_Script ext0 (''[scratch_0]'' @ [CHR 0x0A] @ ''x = 1'') = Inr 1"
          "script_workflow ext0 1 (arg_workflow args0) None =
             Inr \<lparr>wf_name = ''scratch'', sections = [''scratch_0'']\<rparr>"
          "sections \<lparr>wf_name = ''scratch'', sections = [''scratch_0'']\<rparr> = ''scratch_0'' # []"
    by (simp_all add: ext0_def)
  have run: "fst (execute_scratch_cell ext0 ''scratch_0'' [] w) = Inr [(''__last_res__'', PInt 42)]"
    for w
    by (simp add: execute_scratch_cell_def scratch_try_body_def monad_defs ext0_def)
  note r1 = scratch_wrap_or_refuse
      [where x = ext0 and a = args0 and workflow_args = "[]" and cfg = "[]" and w = world0
         and script = 1 and wflow = "\<lparr>wf_name = ''scratch'', sections = [''scratch_0'']\<rparr>"
         and sec = "''scratch_0''" and rest = "[]",
       OF n1 refl refl]
  note r2 = scratch_wrap_or_refuse
      [where x = ext0 and a = args0 and workflow_args = "[]" and cfg = "[]" and w = world0,
       OF n2 refl refl]
  let ?W = "world0\<lparr>env_config := dict_set (env_config world0) ''master_id'' (PStr ''0''),
                     events := events world0 @
                       [SoSScript (''[scratch_0]'' @ [CHR 0x0A] @ ''x = 1''),
                        ScriptWorkflow (arg_workflow args0) None]\<rparr>"
  have eq: "dispatch_try_body ext0 ''x = 1'' False args0 [] [] world0 =
              bindM (execute_scratch_cell ext0 ''scratch_0'' [])
                (\<lambda>res w'. (dict_get res ''__last_res__'', w')) ?W"
    using r1 c1 o by blast
  have "fst (dispatch_try_body ext0 ''x = 1'' False args0 [] [] world0) = Inr (PInt 42)"
    unfolding eq using run [of ?W]
    by (cases "execute_scratch_cell ext0 ''scratch_0'' [] ?W") (simp add: bindM_def dict_get_def)
  moreover have "dispatch_body ext0 ''[10]'' False args0 [] [] world0 =
     (Inr PNone,
      world0\<lparr>env_config := dict_set (dict_set (env_config world0) ''master_id'' (PStr ''0''))
                                  ''sig_mode'' (PStr ''ignore''),
             env_verbosity := Some 2\<rparr>)"
    using r2 c2 by blast
  moreover have "\<not> SOS_SECTION_HEADER_match ext0 ''x = 1'' \<and>
      \<not> startswith ''x = 1'' ''%from'' \<and> \<not> startswith ''x = 1'' ''%include'' \<and>
      SOS_SECTION_HEADER_match ext0 ''[10]''"
    by (simp add: ext0_def startswith_def)
  ultimately show ?thesis
    using n1 n2 l1 l2 by blast
qed

subsection \<open>Signals from the engine\<close>

text \<open>
  C8. Let the \<^verbatim>\<open>try\<close> block of the execution phase end in the state \<open>w1\<close>. When it raises
  \<^verbatim>\<open>PendingTasks\<close>, the dispatcher raises that same exception; when it raises
  \<^verbatim>\<open>SystemExit\<close>, the dispatcher returns \<^verbatim>\<open>None\<close>. In both cases nothing is written and the
  only change to \<open>w1\<close> is the \<^verbatim>\<open>finally\<close> block's: \<^verbatim>\<open>sig_mode\<close> is \<^verbatim>\<open>ignore\<close> and the
  verbosity is 2.
\<close>

theorem dispatch_body_signals:
  assumes "dispatch_try_body x code workflow_mode a workflow_args cfg w = (r, w1)"
    and "w' = w1\<lparr>env_config := dict_set (env_config w1) ''sig_mode'' (PStr ''ignore''),
                  env_verbosity := Some 2\<rparr>"
  shows
   "(r = Inl (PendingTasks m) \<longrightarrow>
       dispatch_body x code workflow_mode a workflow_args cfg w = (Inl (PendingTasks m), w')) \<and>
    (r = Inl (SystemExit m) \<longrightarrow>
       dispatch_body x code workflow_mode a workflow_args cfg w = (Inr PNone, w'))"
  using assms
  by (simp add: dispatch_body_def dispatch_handler_def dispatch_finally_def monad_defs)

theorem dispatch_body_signals_witness:
  "fst (dispatch_try_body (ext_step_raises (PendingTasks ''t1'')) ''x = 1'' False args0 [] [] world0)
     = Inl (PendingTasks ''t1'') \<and>
   fst (dispatch_body (ext_step_raises (PendingTasks ''t1'')) ''x = 1'' False args0 [] [] world0)
     = Inl (PendingTasks ''t1'') \<and>
   fst (dispatch_try_body (ext_step_raises (SystemExit ''0'')) ''x = 1'' False args0 [] [] world0)
     = Inl (SystemExit ''0'') \<and>
   fst (dispatch_body (ext_step_raises (SystemExit ''0'')) ''x = 1'' False args0 [] [] world0)
     = Inr PNone"
proof -
  have n: "strip ''x = 1'' \<noteq> []"
    by (simp add: strip_def isspace_def)
  have l: "splitlines ''x = 1'' = [''x = 1'']"
    by (simp add: splitlines_def is_linebreak_def)
  have b: "fst (dispatch_try_body (ext_step_raises e) ''x = 1'' False args0 [] [] world0) = Inl e"
    if "\<forall>t m. e \<noteq> UnknownTarget t m \<and> e \<noteq> RemovedTarget t m" for e
    using that n
    by (cases e)
       (simp_all add: dispatch_try_body_def scratch_branch_def has_header_or_directive_def l
          run_scratch_def execute_scratch_cell_def scratch_try_body_def subscript0_def
          monad_defs ext_step_raises_def ext0_def startswith_def)
  have b1: "fst (dispatch_try_body (ext_step_raises (PendingTasks ''t1'')) ''x = 1'' False args0 []
                   [] world0) = Inl (PendingTasks ''t1'')"
    using b [of "PendingTasks ''t1''"] by simp
  have b2: "fst (dispatch_try_body (ext_step_raises (SystemExit ''0'')) ''x = 1'' False args0 []
                   [] world0) = Inl (SystemExit ''0'')"
    using b [of "SystemExit ''0''"] by simp
  note r1 = dispatch_body_signals
      [where x = "ext_step_raises (PendingTasks ''t1'')" and code = "''x = 1''"
         and workflow_mode = False and a = args0 and workflow_args = "[]" and cfg = "[]"
         and w = world0 and m = "''t1''", OF prod.collapse [symmetric] refl]
  note r2 = dispatch_body_signals
      [where x = "ext_step_raises (SystemExit ''0'')" and code = "''x = 1''"
         and workflow_mode = False and a = args0 and workflow_args = "[]" and cfg = "[]"
         and w = world0 and m = "''0''", OF prod.collapse [symmetric] refl]
  show ?thesis
    using r1 r2 b1 b2 by simp
qed

subsection \<open>Blank code\<close>

lemma only_setup_since_iff:
  "only_setup_since w w' \<longleftrightarrow> (\<exists>evs. events w' = events w @ evs \<and> list_all setup_event evs)"
proof
  assume "only_setup_since w w'"
  then have "events w' = events w @ drop (length (events w)) (events w')"
    and "list_all setup_event (drop (length (events w)) (events w'))"
    by (simp_all add: only_setup_since_def) (metis append_take_drop_id)
  then show "\<exists>evs. events w' = events w @ evs \<and> list_all setup_event evs"
    by blast
next
  assume "\<exists>evs. events w' = events w @ evs \<and> list_all setup_event evs"
  then show "only_setup_since w w'"
    by (auto simp add: only_setup_since_def)
qed

lemma only_setup_refl: "events w' = events w \<Longrightarrow> only_setup_since w w'"
  by (simp add: only_setup_since_iff)

lemma only_setup_step:
  "setup_event ev \<Longrightarrow> events w' = events w @ [ev] \<Longrightarrow> only_setup_since w w'"
  by (simp add: only_setup_since_iff)

lemma only_setup_trans:
  "only_setup_since w w' \<Longrightarrow> only_setup_since w' w'' \<Longrightarrow> only_setup_since w w''"
  by (auto simp add: only_setup_since_iff)

lemma only_setup_bind:
  assumes "only_setup_since w (snd (m w))"
    and "\<And>y w'. only_setup_since w' (snd (f y w'))"
  shows "only_setup_since w (snd (bindM m f w))"
proof (cases "m w")
  case (Pair r w')
  show ?thesis
  proof (cases r)
    case (Inl e)
    with Pair assms(1) show ?thesis by (simp add: bindM_def)
  next
    case (Inr y)
    with Pair assms(1) assms(2) [of w' y] show ?thesis
      by (auto simp add: bindM_def intro: only_setup_trans)
  qed
qed

lemma only_setup_then:
  assumes "only_setup_since w (snd (m w))"
    and "\<And>w'. only_setup_since w' (snd (k w'))"
  shows "only_setup_since w (snd (thenM m k w))"
  unfolding thenM_def using assms by (rule only_setup_bind)

lemma make_bin_dirs_setup:
  "fst (make_bin_dirs x ds w) = Inr () \<and> only_setup_since w (snd (make_bin_dirs x ds w))"
proof (induction ds arbitrary: w)
  case Nil
  show ?case by (simp add: returnM_def only_setup_refl)
next
  case (Cons d ds)
  let ?w1 = "w\<lparr>directories := expanduser x d # directories w,
               events := events w @ [Makedirs (expanduser x d)]\<rparr>"
  let ?w2 = "if d = ''~/.sos/bin'' \<and> expanduser x d \<notin> set (directories w) then ?w1 else w"
  have eq: "make_bin_dirs x (d # ds) w = make_bin_dirs x ds ?w2"
    by (auto simp add: thenM_def bindM_def)
  have "only_setup_since w ?w1"
    by (rule only_setup_step [of "Makedirs (expanduser x d)"]) simp_all
  moreover have "only_setup_since w w"
    by (simp add: only_setup_refl)
  ultimately have "only_setup_since w ?w2"
    by presburger
  with Cons.IH [of ?w2] show ?case
    unfolding eq by (blast intro: only_setup_trans)
qed

lemma prepend_bin_dirs_setup: "only_setup_since w (snd (prepend_bin_dirs x a w))"
proof (cases "arg_bin_dirs a")
  case None
  then show ?thesis by (simp add: prepend_bin_dirs_def returnM_def only_setup_refl)
next
  case (Some ds)
  show ?thesis
  proof (cases "ds = []")
    case True
    with Some show ?thesis by (simp add: prepend_bin_dirs_def returnM_def only_setup_refl)
  next
    case False
    have "only_setup_since w (snd (thenM (make_bin_dirs x ds)
            (modify (\<lambda>w. w\<lparr>environ_PATH :=
               join (pathsep x) (map (expanduser x) ds) @ pathsep x @ environ_PATH w\<rparr>)) w))"
      by (rule only_setup_then) (simp_all add: make_bin_dirs_setup modify_def only_setup_refl)
    with Some False show ?thesis by (simp add: prepend_bin_dirs_def)
  qed
qed

lemma setup_logger_events: "events (snd (setup_logger kern w)) = events w"
  by (auto simp add: setup_logger_def logger_condition_def logger_getattr_def subscript0_def
        levels_def monad_defs split: option.splits list.splits sum.splits)

lemma dispatch_body_blank:
  assumes "strip code = []"
  shows "dispatch_body x code workflow_mode a workflow_args cfg w =
           (Inr PNone, w\<lparr>env_config := dict_set (env_config w) ''sig_mode'' (PStr ''ignore''),
                         env_verbosity := Some 2\<rparr>)"
  using assms
  by (simp add: dispatch_body_def dispatch_try_body_def dispatch_finally_def monad_defs)

lemma local_dispatch_blank:
  assumes "strip code = []"
  shows "only_setup_since w (snd (local_dispatch x code workflow_mode a workflow_args w)) \<and>
         (fst (local_dispatch x code workflow_mode a workflow_args w) = Inr v \<longrightarrow> v = PNone)"
proof -
  have body: "\<And>cfg w'. only_setup_since w'
                 (snd (dispatch_body x code workflow_mode a workflow_args cfg w'))"
    by (simp add: dispatch_body_blank [OF assms] only_setup_refl)
  have 1: "only_setup_since w (snd (local_dispatch x code workflow_mode a workflow_args w))"
    unfolding local_dispatch_def
    by (intro only_setup_then only_setup_bind prepend_bin_dirs_setup body)
       (simp_all add: clear_step_keys_def monad_defs only_setup_refl)
  have 2: "fst (local_dispatch x code workflow_mode a workflow_args w) = Inr v \<Longrightarrow> v = PNone"
    by (auto simp add: local_dispatch_def thenM_def bindM_def dispatch_body_blank [OF assms]
          split: prod.splits sum.splits)
  from 1 2 show ?thesis by blast
qed

lemma remote_delegate_blank:
  assumes "strip code = []"
  shows "only_setup_since w (snd (remote_delegate x code raw_args kern a remote w)) \<and>
         (fst (remote_delegate x code raw_args kern a remote w) = Inr v \<longrightarrow> v = PNone)"
  using assms
  by (auto simp add: remote_delegate_def monad_defs only_setup_since_def
        split: sum.splits prod.splits)

lemma dispatch_parsed_blank:
  assumes "strip code = []"
  shows "only_setup_since w
           (snd (dispatch_parsed x code raw_args kern workflow_mode a workflow_args w)) \<and>
         (fst (dispatch_parsed x code raw_args kern workflow_mode a workflow_args w) = Inr v
            \<longrightarrow> v = PNone)"
proof -
  let ?w1 = "w\<lparr>sys_argv := ''%run'' # raw_args, env_verbosity := arg_verbosity a\<rparr>"
  let ?a = "resolve_artifacts (strftime_mdy_HM (now x)) a"
  let ?rest = "case arg_remote ?a of
        None \<Rightarrow> local_dispatch x code workflow_mode ?a workflow_args
      | Some remote \<Rightarrow>
          if remote = [] then local_dispatch x code workflow_mode ?a workflow_args
          else remote_delegate x code raw_args kern ?a remote"
  have eq: "dispatch_parsed x code raw_args kern workflow_mode a workflow_args w =
              bindM (setup_logger kern) (\<lambda>_. ?rest) ?w1"
    by (simp add: dispatch_parsed_def thenM_def bindM_def modify_def Let_def)
  have rest: "only_setup_since w' (snd (?rest w')) \<and> (fst (?rest w') = Inr v \<longrightarrow> v = PNone)"
    for w'
    using local_dispatch_blank [OF assms] remote_delegate_blank [OF assms]
    by (simp split: option.splits)
  have w1: "only_setup_since w ?w1"
    by (simp add: only_setup_refl)
  have lg: "only_setup_since ?w1 (snd (setup_logger kern ?w1))"
    by (simp add: setup_logger_events only_setup_refl)
  have 1: "only_setup_since ?w1 (snd (bindM (setup_logger kern) (\<lambda>_. ?rest) ?w1))"
    using lg rest by (intro only_setup_bind) blast+
  have 2: "fst (bindM (setup_logger kern) (\<lambda>_. ?rest) ?w1) = Inr v \<Longrightarrow> v = PNone"
    using rest by (auto simp add: bindM_def split: prod.splits sum.splits)
  show ?thesis
    unfolding eq using only_setup_trans [OF w1 1] 2 by blast
qed

text \<open>
  C1, as the code has it. For every request whose code is empty or only whitespace,
  whatever the arguments, the kernel and the mode: the dispatcher writes no script,
  ships nothing to a host, runs no remote command, parses no code, starts no worker
  and runs no step; the only calls it makes are the usage printer, the argument parser,
  the configuration loader, the host lookup and the creation of the default binary
  directory; and when it returns, it returns \<^verbatim>\<open>None\<close>. It is not free of side effects:
  \<^verbatim>\<open>sys.argv\<close>, the verbosity, the logger's handlers, the execution context and
  \<^verbatim>\<open>PATH\<close> are set on the way.
\<close>

theorem blank_code_runs_nothing:
  assumes "strip code = []"
  shows "only_setup_since w (snd (run_sos_workflow x (Some code) raw kern workflow_mode w)) \<and>
         (fst (run_sos_workflow x (Some code) raw kern workflow_mode w) = Inr v \<longrightarrow> v = PNone)"
proof -
  let ?k = "\<lambda>raw_args. if ''-h'' \<in> set raw_args then print_help
              else bindM (parse_raw_args x raw_args) (\<lambda>(a, workflow_args).
                     dispatch_parsed x code raw_args kern workflow_mode a workflow_args)"
  have eq: "run_sos_workflow x (Some code) raw kern workflow_mode w =
              bindM (split_raw_args x raw) ?k w"
    by (simp add: run_sos_workflow_def)
  have sp: "snd (split_raw_args x raw w) = w"
    by (simp add: split_raw_args_def returnM_def split: raw_args.splits)
  have hp: "only_setup_since w' (snd (print_help w')) \<and> fst (print_help w') = Inr PNone" for w'
    by (simp add: print_help_def monad_defs only_setup_since_def)
  have pr: "only_setup_since w' (snd (parse_raw_args x raw_args w'))" for w' raw_args
    by (auto simp add: parse_raw_args_def monad_defs only_setup_since_def
          split: sum.splits prod.splits)
  have k: "only_setup_since w' (snd (?k raw_args w')) \<and> (fst (?k raw_args w') = Inr v \<longrightarrow> v = PNone)"
    for w' raw_args
  proof (cases "''-h'' \<in> set raw_args")
    case True
    with hp [of w'] show ?thesis by simp
  next
    case False
    have 1: "only_setup_since w' (snd (bindM (parse_raw_args x raw_args) (\<lambda>(a, workflow_args).
               dispatch_parsed x code raw_args kern workflow_mode a workflow_args) w'))"
      using dispatch_parsed_blank [OF assms]
      by (intro only_setup_bind pr) (auto split: prod.splits)
    have 2: "fst (bindM (parse_raw_args x raw_args) (\<lambda>(a, workflow_args).
               dispatch_parsed x code raw_args kern workflow_mode a workflow_args) w') = Inr v
             \<Longrightarrow> v = PNone"
      using dispatch_parsed_blank [OF assms]
      by (auto simp add: bindM_def split: prod.splits sum.splits)
    from False 1 2 show ?thesis by auto
  qed
  have 1: "only_setup_since w (snd (bindM (split_raw_args x raw) ?k w))"
    using k by (intro only_setup_bind) (simp_all add: sp only_setup_refl)
  have 2: "fst (bindM (split_raw_args x raw) ?k w) = Inr v \<Longrightarrow> v = PNone"
    using k by (auto simp add: bindM_def split: prod.splits sum.splits)
  show ?thesis
    unfolding eq using 1 2 by blast
qed

theorem blank_code_runs_nothing_witness:
  "strip ''  '' = [] \<and>
   only_setup_since world0
     (snd (run_sos_workflow ext0 (Some ''  '') (RawList []) (Some (Kernel 1)) False world0)) \<and>
   fst (run_sos_workflow ext0 (Some ''  '') (RawList []) (Some (Kernel 1)) False world0)
     = Inr PNone"
proof -
  have b: "strip ''  '' = []"
    by (simp add: strip_def isspace_def)
  have r: "fst (run_sos_workflow ext0 (Some ''  '') (RawList []) (Some (Kernel 1)) False world0)
             = Inr PNone"
    by code_simp
  show ?thesis
    using b r blank_code_runs_nothing
      [OF b, where w = world0 and x = ext0 and raw = "RawList []" and kern = "Some (Kernel 1)"
         and workflow_mode = False and v = PNone]
    by blast
qed

text \<open>
  C1 as stated fails. A request with whitespace-only code, no arguments and a kernel
  returns \<^verbatim>\<open>None\<close>, and on the way \<^verbatim>\<open>sys.argv\<close>, the logger's handlers, the execution
  context, \<^verbatim>\<open>PATH\<close> and the set of directories have all changed.
\<close>

theorem blank_code_side_effects_counterexample:
  "strip ''  '' = [] \<and>
   run_sos_workflow ext0 (Some ''  '') (RawList []) (Some (Kernel 1)) False world0 =
     (Inr PNone,
      \<lparr> sys_argv = [''%run''],
        env_verbosity = Some 2,
        logger_handlers = [NotebookLoggingHandler INFO (Some (Kernel 1)) ''%run''],
        env_config = [(''sockets'', PDict [(''tapping_logging'', PInt 5001),
                                          (''tapping_controller'', PInt 5002)]),
                      (''sig_mode'', PStr ''ignore'')],
        sos_dict = [(''x'', PInt 1), (''__step_output__'', PTargets [])],
        env_sockets = [(''controller_req_socket'', Channel 1),
                       (''tapping_logging_socket'', Channel 2),
                       (''tapping_controller_socket'', Channel 3),
                       (''tapping_controller.socket'', Channel 4)],
        environ_PATH = ''/home/user/.sos/bin:/usr/bin'',
        directories = [''/home/user/.sos/bin''],
        cwd = ''/home/user'',
        events = [ParseKnownArgs True [], Makedirs ''/home/user/.sos/bin''] \<rparr>) \<and>
   sys_argv world0 = [''ipykernel_launcher.py''] \<and>
   logger_handlers world0 = [OtherHandler] \<and>
   sos_dict world0 = [(''step_input'', PStr ''a.txt''), (''x'', PInt 1)] \<and>
   environ_PATH world0 = ''/usr/bin'' \<and>
   directories world0 = []"
  by code_simp

end
